theory Spec2Isabelle
  imports Main "HOL-Library.Word"
begin

unbundle bit_operations_syntax

section \<open>Data model of package multihash\<close>

text \<open>
  A Go \<open>byte\<close> is an \<open>8 word\<close>, a \<open>[]byte\<close> a list of them. Go's \<open>int\<close> is modelled
  as \<open>int\<close>: the package does no arithmetic on codes or lengths apart from the
  conversions \<open>uint8(x)\<close>, which keep the low eight bits (\<open>word_of_int\<close> into \<open>8 word\<close>,
  that is \<open>x mod 256\<close>), and \<open>int(uint8(b))\<close>, which is \<open>uint b\<close>. A Go \<open>string\<close> is a
  sequence of bytes, here a \<open>string\<close> (a list of 8-bit \<open>char\<close>s).
\<close>

type_synonym byte = "8 word"

type_synonym Multihash = "byte list"

record DecodedMultihash =
  Code :: int
  Name :: string
  Length :: int
  Digest :: "byte list"

text \<open>
  The package's error values. \<open>ErrInconsistentLen\<close> carries the decoded multihash it was
  raised for. The last two are the errors of \<open>encoding/hex\<close> that \<open>FromHexString\<close>
  passes on.
\<close>

datatype error =
    ErrUnknownCode
  | ErrTooShort
  | ErrTooLong
  | ErrLenNotSupported
  | ErrInvalidMultihash
  | ErrInconsistentLen DecodedMultihash
  | hex_ErrLength
  | hex_InvalidByteError char

subsection \<open>Constants\<close>

definition SHA1 :: int where "SHA1 = 0x11"
definition SHA2_256 :: int where "SHA2_256 = 0x12"
definition SHA2_512 :: int where "SHA2_512 = 0x13"
definition SHA3 :: int where "SHA3 = 0x14"
definition BLAKE2B_MIN :: int where "BLAKE2B_MIN = 0xb201"
definition BLAKE2B_MAX :: int where "BLAKE2B_MAX = 0xb240"
definition BLAKE2S_MIN :: int where "BLAKE2S_MIN = 0xb241"
definition BLAKE2S_MAX :: int where "BLAKE2S_MAX = 0xb260"
definition DBL_SHA2_256 :: int where "DBL_SHA2_256 = 0x56"

subsection \<open>The package-level tables\<close>

text \<open>
  The three exported maps are the package's only state. They are passed explicitly: every
  function that reads a table takes the \<open>registry\<close> it reads. \<open>package_vars\<close> is their
  value after the variable initialisers have run, and \<open>init\<close> is the package's \<open>init\<close>
  function, which Go runs once after that.
\<close>

record registry =
  Names :: "string \<rightharpoonup> int"
  Codes :: "int \<rightharpoonup> string"
  DefaultLengths :: "int \<rightharpoonup> int"

definition package_vars :: registry where
  "package_vars = \<lparr>
     Names = [''sha1'' \<mapsto> SHA1, ''sha2-256'' \<mapsto> SHA2_256, ''sha2-512'' \<mapsto> SHA2_512,
              ''sha3'' \<mapsto> SHA3, ''dbl-sha2-256'' \<mapsto> DBL_SHA2_256],
     Codes = [SHA1 \<mapsto> ''sha1'', SHA2_256 \<mapsto> ''sha2-256'', SHA2_512 \<mapsto> ''sha2-512'',
              SHA3 \<mapsto> ''sha3'', DBL_SHA2_256 \<mapsto> ''dbl-sha2-256''],
     DefaultLengths = [SHA1 \<mapsto> 20, SHA2_256 \<mapsto> 32, SHA2_512 \<mapsto> 64,
              SHA3 \<mapsto> 64, DBL_SHA2_256 \<mapsto> 32] \<rparr>"

text \<open>Reading a Go map at a missing key gives the zero value of the value type.\<close>

definition index_int :: "('k \<rightharpoonup> int) \<Rightarrow> 'k \<Rightarrow> int" where
  "index_int m k = (case m k of None \<Rightarrow> 0 | Some v \<Rightarrow> v)"

definition index_string :: "('k \<rightharpoonup> string) \<Rightarrow> 'k \<Rightarrow> string" where
  "index_string m k = (case m k of None \<Rightarrow> [] | Some v \<Rightarrow> v)"

subsection \<open>Decimal formatting\<close>

text \<open>\<open>fmt.Sprintf("%d", n)\<close> for an unsigned \<open>n\<close>: the decimal digits, most significant first.\<close>

definition digit_char :: "nat \<Rightarrow> char" where
  "digit_char d = char_of (48 + d)"

function fmt_d :: "nat \<Rightarrow> string" where
  "fmt_d n = (if n < 10 then [digit_char n] else fmt_d (n div 10) @ [digit_char (n mod 10)])"
  by pat_completeness auto
termination
  by (relation "measure id") auto

declare fmt_d.simps [simp del]

subsection \<open>init\<close>

text \<open>
  The two loops of \<open>init\<close>, one recursive function each, the loop variable \<open>c\<close> as argument.
  The source declares \<open>c\<close> as \<open>uint64\<close> and the tables over \<open>int\<close>; every value of \<open>c\<close>,
  \<open>n\<close> and \<open>n * 8\<close> lies between 1 and 0xb261, where the two types agree and nothing wraps.
\<close>

function init_blake2b :: "int \<Rightarrow> registry \<Rightarrow> registry" where
  "init_blake2b c r =
     (if c \<le> BLAKE2B_MAX then
        (let n = c - BLAKE2B_MIN + 1;
             name = ''blake2b-'' @ fmt_d (nat (n * 8))
         in init_blake2b (c + 1)
              (r\<lparr> Names := (Names r)(name \<mapsto> c),
                  Codes := (Codes r)(c \<mapsto> name),
                  DefaultLengths := (DefaultLengths r)(c \<mapsto> n) \<rparr>))
      else r)"
  by pat_completeness auto
termination
  by (relation "measure (\<lambda>(c, r). nat (BLAKE2B_MAX + 1 - c))") auto

function init_blake2s :: "int \<Rightarrow> registry \<Rightarrow> registry" where
  "init_blake2s c r =
     (if c \<le> BLAKE2S_MAX then
        (let n = c - BLAKE2S_MIN + 1;
             name = ''blake2s-'' @ fmt_d (nat (n * 8))
         in init_blake2s (c + 1)
              (r\<lparr> Names := (Names r)(name \<mapsto> c),
                  Codes := (Codes r)(c \<mapsto> name),
                  DefaultLengths := (DefaultLengths r)(c \<mapsto> n) \<rparr>))
      else r)"
  by pat_completeness auto
termination
  by (relation "measure (\<lambda>(c, r). nat (BLAKE2S_MAX + 1 - c))") auto

declare init_blake2b.simps [simp del] init_blake2s.simps [simp del]

definition init :: "registry \<Rightarrow> registry" where
  "init r = init_blake2s BLAKE2S_MIN (init_blake2b BLAKE2B_MIN r)"

text \<open>The tables as every caller of the package finds them.\<close>

definition the_registry :: registry where
  "the_registry = init package_vars"

section \<open>The codec\<close>

definition AppCode :: "int \<Rightarrow> bool" where
  "AppCode code = (code \<ge> 0 \<and> code < 0x10)"

definition ValidCode :: "registry \<Rightarrow> int \<Rightarrow> bool" where
  "ValidCode r code =
     (if AppCode code then True
      else if Codes r code \<noteq> None then True
      else False)"

definition Decode :: "registry \<Rightarrow> byte list \<Rightarrow> error + DecodedMultihash" where
  "Decode r buf =
     (if length buf < 3 then Inl ErrTooShort
      else if length buf > 129 then Inl ErrTooLong
      else
        (let dm = \<lparr> Code = uint (buf ! 0),
                    Name = index_string (Codes r) (uint (buf ! 0)),
                    Length = uint (buf ! 1),
                    Digest = drop 2 buf \<rparr>
         in if int (length (Digest dm)) \<noteq> Length dm then Inl (ErrInconsistentLen dm)
            else Inr dm))"

definition Encode :: "registry \<Rightarrow> byte list \<Rightarrow> int \<Rightarrow> error + byte list" where
  "Encode r buf code =
     (if \<not> ValidCode r code then Inl ErrUnknownCode
      else if length buf > 127 then Inl ErrLenNotSupported
      else
        (let pre = [word_of_int code, word_of_int (int (length buf))]
         in Inr (pre @ buf)))"

definition EncodeName :: "registry \<Rightarrow> byte list \<Rightarrow> string \<Rightarrow> error + byte list" where
  "EncodeName r buf name = Encode r buf (index_int (Names r) name)"

definition Cast :: "registry \<Rightarrow> byte list \<Rightarrow> error + Multihash" where
  "Cast r buf =
     (case Decode r buf of
        Inl err \<Rightarrow> Inl err
      | Inr dm \<Rightarrow> if \<not> ValidCode r (Code dm) then Inl ErrUnknownCode else Inr buf)"

section \<open>Text conversions\<close>

subsection \<open>Go's encoding/hex\<close>

text \<open>
  \<open>hex.EncodeToString\<close> and \<open>hex.DecodeString\<close> belong to Go's standard library, not to
  this package; they are modelled after the library's source. Encoding writes, for each
  byte \<open>v\<close>, the two characters \<open>hextable[v>>4]\<close> and \<open>hextable[v&0x0f]\<close>. Decoding reads
  the characters in pairs from the left, fails with \<open>InvalidByteError\<close> at the first
  character that is no hexadecimal digit (of either case) and with \<open>ErrLength\<close> when a
  single valid character is left over.
\<close>

definition hextable :: string where
  "hextable = ''0123456789abcdef''"

fun hex_EncodeToString :: "byte list \<Rightarrow> string" where
  "hex_EncodeToString [] = []"
| "hex_EncodeToString (v # src) =
     hextable ! unat (drop_bit 4 v) # hextable ! unat (v AND 0x0f) # hex_EncodeToString src"

definition fromHexChar :: "char \<Rightarrow> byte option" where
  "fromHexChar c =
     (let n = (of_char c :: nat) in
      if 48 \<le> n \<and> n \<le> 57 then Some (of_nat (n - 48))
      else if 97 \<le> n \<and> n \<le> 102 then Some (of_nat (n - 97 + 10))
      else if 65 \<le> n \<and> n \<le> 70 then Some (of_nat (n - 65 + 10))
      else None)"

fun hex_DecodeString :: "string \<Rightarrow> error + byte list" where
  "hex_DecodeString [] = Inr []"
| "hex_DecodeString [p] =
     (case fromHexChar p of
        None \<Rightarrow> Inl (hex_InvalidByteError p)
      | Some a \<Rightarrow> Inl hex_ErrLength)"
| "hex_DecodeString (p # q # src) =
     (case fromHexChar p of
        None \<Rightarrow> Inl (hex_InvalidByteError p)
      | Some a \<Rightarrow>
          (case fromHexChar q of
             None \<Rightarrow> Inl (hex_InvalidByteError q)
           | Some b \<Rightarrow>
               (case hex_DecodeString src of
                  Inl err \<Rightarrow> Inl err
                | Inr dst \<Rightarrow> Inr ((push_bit 4 a OR b) # dst))))"

subsection \<open>Multihash to and from hexadecimal text\<close>

definition HexString :: "Multihash \<Rightarrow> string" where
  "HexString m = hex_EncodeToString m"

definition FromHexString :: "registry \<Rightarrow> string \<Rightarrow> error + Multihash" where
  "FromHexString r s =
     (case hex_DecodeString s of
        Inl err \<Rightarrow> Inl err
      | Inr b \<Rightarrow> Cast r b)"

section \<open>The registry after init\<close>

lemmas code_consts =
  SHA1_def SHA2_256_def SHA2_512_def SHA3_def DBL_SHA2_256_def
  BLAKE2B_MIN_def BLAKE2B_MAX_def BLAKE2S_MIN_def BLAKE2S_MAX_def

text \<open>
  Each loop of \<open>init\<close> overwrites the entries of its own code range and leaves every other
  entry of \<open>Codes\<close> and \<open>DefaultLengths\<close> as it was; in \<open>Names\<close> it only writes names that
  start with its family prefix.
\<close>

lemma Codes_init_blake2b:
  "Codes (init_blake2b c r) x =
     (if c \<le> x \<and> x \<le> BLAKE2B_MAX
      then Some (''blake2b-'' @ fmt_d (nat ((x - BLAKE2B_MIN + 1) * 8)))
      else Codes r x)"
proof (induction c r rule: init_blake2b.induct)
  case (1 c r)
  show ?case
  proof (cases "c \<le> BLAKE2B_MAX")
    case True
    then show ?thesis
      using "1.IH" [OF True refl refl]
      by (subst init_blake2b.simps) (auto simp: Let_def)
  next
    case False
    then show ?thesis
      by (subst init_blake2b.simps) auto
  qed
qed

lemma DefaultLengths_init_blake2b:
  "DefaultLengths (init_blake2b c r) x =
     (if c \<le> x \<and> x \<le> BLAKE2B_MAX then Some (x - BLAKE2B_MIN + 1) else DefaultLengths r x)"
proof (induction c r rule: init_blake2b.induct)
  case (1 c r)
  show ?case
  proof (cases "c \<le> BLAKE2B_MAX")
    case True
    then show ?thesis
      using "1.IH" [OF True refl refl]
      by (subst init_blake2b.simps) (auto simp: Let_def)
  next
    case False
    then show ?thesis
      by (subst init_blake2b.simps) auto
  qed
qed

lemma Names_init_blake2b_other:
  "take 8 s \<noteq> ''blake2b-'' \<Longrightarrow> Names (init_blake2b c r) s = Names r s"
proof (induction c r rule: init_blake2b.induct)
  case (1 c r)
  show ?case
  proof (cases "c \<le> BLAKE2B_MAX")
    case True
    then show ?thesis
      using "1.IH" [OF True refl refl] "1.prems"
      by (subst init_blake2b.simps) (auto simp: Let_def)
  next
    case False
    then show ?thesis
      by (subst init_blake2b.simps) simp
  qed
qed

lemma Codes_init_blake2s:
  "Codes (init_blake2s c r) x =
     (if c \<le> x \<and> x \<le> BLAKE2S_MAX
      then Some (''blake2s-'' @ fmt_d (nat ((x - BLAKE2S_MIN + 1) * 8)))
      else Codes r x)"
proof (induction c r rule: init_blake2s.induct)
  case (1 c r)
  show ?case
  proof (cases "c \<le> BLAKE2S_MAX")
    case True
    then show ?thesis
      using "1.IH" [OF True refl refl]
      by (subst init_blake2s.simps) (auto simp: Let_def)
  next
    case False
    then show ?thesis
      by (subst init_blake2s.simps) auto
  qed
qed

lemma DefaultLengths_init_blake2s:
  "DefaultLengths (init_blake2s c r) x =
     (if c \<le> x \<and> x \<le> BLAKE2S_MAX then Some (x - BLAKE2S_MIN + 1) else DefaultLengths r x)"
proof (induction c r rule: init_blake2s.induct)
  case (1 c r)
  show ?case
  proof (cases "c \<le> BLAKE2S_MAX")
    case True
    then show ?thesis
      using "1.IH" [OF True refl refl]
      by (subst init_blake2s.simps) (auto simp: Let_def)
  next
    case False
    then show ?thesis
      by (subst init_blake2s.simps) auto
  qed
qed

lemma Names_init_blake2s_other:
  "take 8 s \<noteq> ''blake2s-'' \<Longrightarrow> Names (init_blake2s c r) s = Names r s"
proof (induction c r rule: init_blake2s.induct)
  case (1 c r)
  show ?case
  proof (cases "c \<le> BLAKE2S_MAX")
    case True
    then show ?thesis
      using "1.IH" [OF True refl refl] "1.prems"
      by (subst init_blake2s.simps) (auto simp: Let_def)
  next
    case False
    then show ?thesis
      by (subst init_blake2s.simps) simp
  qed
qed

lemma Codes_the_registry:
  "Codes the_registry x =
     (if BLAKE2S_MIN \<le> x \<and> x \<le> BLAKE2S_MAX
      then Some (''blake2s-'' @ fmt_d (nat ((x - BLAKE2S_MIN + 1) * 8)))
      else if BLAKE2B_MIN \<le> x \<and> x \<le> BLAKE2B_MAX
      then Some (''blake2b-'' @ fmt_d (nat ((x - BLAKE2B_MIN + 1) * 8)))
      else Codes package_vars x)"
  by (simp add: the_registry_def init_def Codes_init_blake2s Codes_init_blake2b)

lemma DefaultLengths_the_registry:
  "DefaultLengths the_registry x =
     (if BLAKE2S_MIN \<le> x \<and> x \<le> BLAKE2S_MAX then Some (x - BLAKE2S_MIN + 1)
      else if BLAKE2B_MIN \<le> x \<and> x \<le> BLAKE2B_MAX then Some (x - BLAKE2B_MIN + 1)
      else DefaultLengths package_vars x)"
  by (simp add: the_registry_def init_def DefaultLengths_init_blake2s DefaultLengths_init_blake2b)

lemma Names_the_registry_other:
  "take 8 s \<noteq> ''blake2b-'' \<Longrightarrow> take 8 s \<noteq> ''blake2s-'' \<Longrightarrow>
     Names the_registry s = Names package_vars s"
  by (simp add: the_registry_def init_def Names_init_blake2s_other Names_init_blake2b_other)

lemma Codes_the_registry_small:
  "x < 0xb201 \<Longrightarrow> Codes the_registry x = Codes package_vars x"
  by (simp add: Codes_the_registry code_consts)

section \<open>Facts about encoding/hex\<close>

lemma hi_nibble_bound: "unat (drop_bit 4 (v :: byte)) < 16"
proof -
  have "unat v < 256"
    using unsigned_less [of v] by simp
  moreover have "unat (drop_bit 4 v) = unat v div 16"
    by (simp add: drop_bit_eq_div unat_div)
  ultimately show ?thesis
    by simp
qed

lemma lo_nibble_bound: "unat ((v :: byte) AND 0x0f) < 16"
proof -
  have "v AND 0x0f \<le> 0x0f"
    by (rule word_and_le1)
  then have "unat (v AND 0x0f) \<le> unat (0x0f :: byte)"
    by (simp only: word_le_nat_alt)
  then show ?thesis
    by simp
qed

lemma nibbles_join: "push_bit 4 (drop_bit 4 v) OR (v AND 0x0f) = (v :: byte)"
proof -
  have "v AND 0x0f = take_bit 4 v"
    by (simp add: take_bit_eq_mask mask_eq_exp_minus_1)
  moreover have "push_bit 4 (drop_bit 4 v) OR take_bit 4 v
      = push_bit 4 (drop_bit 4 v) + take_bit 4 v"
    by (rule disjunctive_add_eq_or [symmetric]) (simp add: bit_eq_iff bit_simps)
  ultimately show ?thesis
    by (simp add: bits_ident)
qed

lemma below_16_cases:
  "n < 16 \<Longrightarrow> n \<in> {0, 1, 2, 3, 4, 5, 6, 7, 8, 9, 10, 11, 12, 13, 14, 15 :: nat}"
  by (simp, arith)

lemma fromHexChar_hextable:
  "n < 16 \<Longrightarrow> fromHexChar (hextable ! n) = Some (of_nat n)"
  by (drule below_16_cases) (auto simp: fromHexChar_def hextable_def)

lemma hextable_lowercase:
  "n < 16 \<Longrightarrow> hextable ! n \<in> set ''0123456789abcdef''"
  by (drule below_16_cases) (auto simp: hextable_def)

lemma fromHexChar_hi:
  "fromHexChar (hextable ! unat (drop_bit 4 (v :: byte))) = Some (drop_bit 4 v)"
  using fromHexChar_hextable [OF hi_nibble_bound, of v] by simp

lemma fromHexChar_lo:
  "fromHexChar (hextable ! unat ((v :: byte) AND 0x0f)) = Some (v AND 0x0f)"
  using fromHexChar_hextable [OF lo_nibble_bound, of v] by simp

lemma hex_DecodeString_EncodeToString:
  "hex_DecodeString (hex_EncodeToString src) = Inr src"
  by (induction src) (simp_all add: fromHexChar_hi fromHexChar_lo nibbles_join)

lemma length_hex_EncodeToString:
  "length (hex_EncodeToString src) = 2 * length src"
  by (induction src) simp_all

lemma hex_EncodeToString_lowercase:
  "set (hex_EncodeToString src) \<subseteq> set ''0123456789abcdef''"
proof (induction src)
  case Nil
  show ?case by simp
next
  case (Cons v src)
  have "hextable ! unat (drop_bit 4 v) \<in> set ''0123456789abcdef''"
    by (rule hextable_lowercase [OF hi_nibble_bound])
  moreover have "hextable ! unat (v AND 0x0f) \<in> set ''0123456789abcdef''"
    by (rule hextable_lowercase [OF lo_nibble_bound])
  ultimately show ?case
    using Cons.IH by simp
qed

section \<open>Facts about the codec\<close>

lemma uint_byte_of_int: "uint (word_of_int k :: byte) = k mod 256"
  by (simp add: uint_word_of_int)

lemma uint_byte_of_nat: "uint (word_of_nat n :: byte) = int n mod 256"
  using uint_byte_of_int [of "int n"] by simp

lemma uint_byte_bounds: "0 \<le> uint (b :: byte) \<and> uint b \<le> 255"
  using uint_lt2p [of b] by simp

lemma ValidCode_iff:
  "ValidCode r c \<longleftrightarrow> (0 \<le> c \<and> c < 16) \<or> c \<in> dom (Codes r)"
  by (auto simp: ValidCode_def AppCode_def)

lemma Encode_ok:
  "length d \<le> 127 \<Longrightarrow> ValidCode r c \<Longrightarrow>
     Encode r d c = Inr (word_of_int c # word_of_int (int (length d)) # d)"
  by (simp add: Encode_def)

lemma Encode_ok_bytes:
  "length d \<le> 127 \<Longrightarrow> ValidCode r c \<Longrightarrow>
     \<exists>out. Encode r d c = Inr out \<and>
         map uint out = (c mod 256) # (int (length d) mod 256) # map uint d \<and>
         drop 2 out = d"
  by (simp add: Encode_ok uint_byte_of_int uint_byte_of_nat)

lemma Decode_ok:
  "3 \<le> length b \<Longrightarrow> length b \<le> 129 \<Longrightarrow> uint (b ! 1) = int (length b) - 2 \<Longrightarrow>
   Decode r b = Inr \<lparr> Code = uint (b ! 0), Name = index_string (Codes r) (uint (b ! 0)),
                      Length = uint (b ! 1), Digest = drop 2 b \<rparr>"
  by (simp add: Decode_def Let_def)

lemma Decode_Inr_iff:
  "Decode r b = Inr dm \<longleftrightarrow>
     3 \<le> length b \<and> length b \<le> 129 \<and> uint (b ! 1) = int (length b) - 2 \<and>
     dm = \<lparr> Code = uint (b ! 0), Name = index_string (Codes r) (uint (b ! 0)),
            Length = uint (b ! 1), Digest = drop 2 b \<rparr>"
  by (auto simp: Decode_def Let_def)

lemma Codes_the_registry_0x99: "Codes the_registry 0x99 = None"
  by (simp add: Codes_the_registry_small package_vars_def code_consts)

lemma Codes_the_registry_sha1: "Codes the_registry 0x11 = Some ''sha1''"
  by (simp add: Codes_the_registry_small package_vars_def code_consts)

lemma ValidCode_sha1: "ValidCode the_registry 0x11"
  by (simp add: ValidCode_def Codes_the_registry_sha1)

section \<open>Encode\<close>

text \<open>
  Claim C4. For every digest \<open>d\<close> of at most 127 bytes and every code \<open>c\<close> that \<open>ValidCode\<close>
  accepts, \<open>Encode\<close> succeeds, and its output is the byte \<open>c mod 256\<close>, the byte
  \<open>len(d) mod 256\<close> and then \<open>d\<close> unchanged (the bytes are compared by their unsigned
  values, which determine them). In particular \<open>Encode([0xAA,0xBB,0xCC,0xDD], 0x11)\<close> is
  \<open>[0x11, 0x04, 0xAA, 0xBB, 0xCC, 0xDD]\<close> with the tables as \<open>init\<close> leaves them.
\<close>

theorem Encode_bytes:
  "(\<forall>r d c. length d \<le> 127 \<and> ValidCode r c \<longrightarrow>
      (\<exists>out. Encode r d c = Inr out \<and>
         map uint out = (c mod 256) # (int (length d) mod 256) # map uint d \<and>
         drop 2 out = d))
   \<and> Encode the_registry [0xAA, 0xBB, 0xCC, 0xDD] 0x11 = Inr [0x11, 0x04, 0xAA, 0xBB, 0xCC, 0xDD]"
proof (intro conjI allI impI)
  fix r and d :: "byte list" and c
  assume "length d \<le> 127 \<and> ValidCode r c"
  then show "\<exists>out. Encode r d c = Inr out \<and>
         map uint out = (c mod 256) # (int (length d) mod 256) # map uint d \<and>
         drop 2 out = d"
    using Encode_ok_bytes [of d r c] by simp
next
  show "Encode the_registry [0xAA, 0xBB, 0xCC, 0xDD] 0x11 = Inr [0x11, 0x04, 0xAA, 0xBB, 0xCC, 0xDD]"
    by (simp add: Encode_ok ValidCode_sha1)
qed

text \<open>C4 at the three-byte digest \<open>[1, 2, 3]\<close> and the code 0x56 of dbl-sha2-256.\<close>

theorem Encode_bytes_witness:
  "length [0x01, 0x02, 0x03 :: byte] \<le> 127 \<and> ValidCode the_registry 0x56 \<and>
   (\<exists>out. Encode the_registry [0x01, 0x02, 0x03] 0x56 = Inr out \<and>
      map uint out = [0x56, 3, 1, 2, 3] \<and> drop 2 out = [0x01, 0x02, 0x03])"
proof -
  have v: "ValidCode the_registry 0x56"
    by (simp add: ValidCode_def Codes_the_registry_small package_vars_def code_consts)
  have l: "length [0x01, 0x02, 0x03 :: byte] \<le> 127"
    by simp
  from Encode_bytes
  have "length [0x01, 0x02, 0x03 :: byte] \<le> 127 \<and> ValidCode the_registry 0x56 \<longrightarrow>
      (\<exists>out. Encode the_registry [0x01, 0x02, 0x03] 0x56 = Inr out \<and>
         map uint out = (0x56 mod 256) # (int (length [0x01, 0x02, 0x03 :: byte]) mod 256)
           # map uint [0x01, 0x02, 0x03 :: byte] \<and>
         drop 2 out = [0x01, 0x02, 0x03])"
    by blast
  with v l show ?thesis by simp
qed

text \<open>
  Claim C7. \<open>Encode\<close> fails with \<open>ErrUnknownCode\<close> whenever the code is neither in
  \<open>[0, 16)\<close> nor a key of \<open>Codes\<close>; for a valid code it fails with \<open>ErrLenNotSupported\<close>
  whenever the digest is longer than 127 bytes and succeeds for every digest of at most
  127 bytes (so for one of exactly 127); a code is valid exactly when it is in \<open>[0, 16)\<close>
  or a key of \<open>Codes\<close>; and \<open>Encode\<close> fails in no other way.
\<close>

theorem Encode_failures:
  "(\<not> (0 \<le> c \<and> c < 16) \<and> c \<notin> dom (Codes r) \<longrightarrow> Encode r d c = Inl ErrUnknownCode) \<and>
   (ValidCode r c \<and> length d > 127 \<longrightarrow> Encode r d c = Inl ErrLenNotSupported) \<and>
   (ValidCode r c \<and> length d \<le> 127 \<longrightarrow> (\<exists>out. Encode r d c = Inr out)) \<and>
   (ValidCode r c \<longleftrightarrow> (0 \<le> c \<and> c < 16) \<or> c \<in> dom (Codes r)) \<and>
   (\<forall>e. Encode r d c = Inl e \<longrightarrow>
      (e = ErrUnknownCode \<and> \<not> ValidCode r c) \<or>
      (e = ErrLenNotSupported \<and> ValidCode r c \<and> length d > 127))"
  by (auto simp: Encode_def ValidCode_iff Let_def split: if_splits)

text \<open>
  C7 at the unregistered code 0x99, and at sha1 with digests of 128 and of 127 zero bytes.
\<close>

theorem Encode_failures_witness:
  "Encode the_registry [] 0x99 = Inl ErrUnknownCode \<and>
   Encode the_registry (replicate 128 0) 0x11 = Inl ErrLenNotSupported \<and>
   (\<exists>out. Encode the_registry (replicate 127 0) 0x11 = Inr out)"
  using Encode_failures [of "0x99" the_registry "[]"]
    Encode_failures [of "0x11" the_registry "replicate 128 0"]
    Encode_failures [of "0x11" the_registry "replicate 127 0"]
  by (simp add: Codes_the_registry_0x99 Codes_the_registry_sha1 domIff)

section \<open>Decode\<close>

text \<open>
  Claim C5. For every input \<open>b\<close> of 3 to 129 bytes whose second byte equals \<open>len(b) - 2\<close>,
  \<open>Decode\<close> succeeds; the result has \<open>Code = b[0]\<close> as an unsigned value, \<open>Name\<close> the entry
  of \<open>Codes\<close> for that code and the empty string when there is none (an unknown code is
  no failure), \<open>Length = b[1]\<close> and \<open>Digest = b[2:]\<close>.
\<close>

theorem Decode_fields:
  "3 \<le> length b \<Longrightarrow> length b \<le> 129 \<Longrightarrow> uint (b ! 1) = int (length b) - 2 \<Longrightarrow>
   \<exists>dm. Decode r b = Inr dm \<and>
     Code dm = uint (b ! 0) \<and>
     Name dm = (case Codes r (Code dm) of Some name \<Rightarrow> name | None \<Rightarrow> []) \<and>
     Length dm = uint (b ! 1) \<and>
     Digest dm = drop 2 b"
  by (simp add: Decode_ok index_string_def)

text \<open>
  C5 at the sha1 multihash \<open>[0x11, 0x04, 0xAA, 0xBB, 0xCC, 0xDD]\<close> and at \<open>[0x99, 0x01, 0x07]\<close>,
  whose code is unknown and whose name is decoded as the empty string.
\<close>

theorem Decode_fields_witness:
  "3 \<le> length [0x11, 0x04, 0xAA, 0xBB, 0xCC, 0xDD :: byte] \<and>
   length [0x11, 0x04, 0xAA, 0xBB, 0xCC, 0xDD :: byte] \<le> 129 \<and>
   uint ([0x11, 0x04, 0xAA, 0xBB, 0xCC, 0xDD :: byte] ! 1)
     = int (length [0x11, 0x04, 0xAA, 0xBB, 0xCC, 0xDD :: byte]) - 2 \<and>
   (\<exists>dm. Decode the_registry [0x11, 0x04, 0xAA, 0xBB, 0xCC, 0xDD] = Inr dm \<and>
      Code dm = 0x11 \<and> Name dm = ''sha1'' \<and> Length dm = 4 \<and>
      Digest dm = [0xAA, 0xBB, 0xCC, 0xDD]) \<and>
   (\<exists>dm. Decode the_registry [0x99, 0x01, 0x07] = Inr dm \<and>
      Code dm = 0x99 \<and> Name dm = [] \<and> Length dm = 1 \<and> Digest dm = [0x07])"
  using Decode_fields [of "[0x11, 0x04, 0xAA, 0xBB, 0xCC, 0xDD]" the_registry]
    Decode_fields [of "[0x99, 0x01, 0x07]" the_registry]
  by (auto simp: Codes_the_registry_0x99 Codes_the_registry_sha1)

text \<open>
  Claim C6. \<open>Decode\<close> fails with \<open>ErrTooShort\<close> on every input of fewer than 3 bytes and
  with \<open>ErrTooLong\<close> on every input of more than 129 bytes; on an input of 3 to 129 bytes
  whose digest byte count \<open>len(b) - 2\<close> differs from the length byte \<open>b[1]\<close> it fails
  with \<open>ErrInconsistentLen\<close>, and the error carries the decoded code, name, length and
  digest. \<open>Decode\<close> fails on no other input.
\<close>

theorem Decode_failures:
  "(length b < 3 \<longrightarrow> Decode r b = Inl ErrTooShort) \<and>
   (length b > 129 \<longrightarrow> Decode r b = Inl ErrTooLong) \<and>
   (3 \<le> length b \<and> length b \<le> 129 \<and> int (length b) - 2 \<noteq> uint (b ! 1) \<longrightarrow>
      Decode r b = Inl (ErrInconsistentLen
        \<lparr> Code = uint (b ! 0), Name = index_string (Codes r) (uint (b ! 0)),
          Length = uint (b ! 1), Digest = drop 2 b \<rparr>)) \<and>
   ((\<exists>e. Decode r b = Inl e) \<longleftrightarrow>
      length b < 3 \<or> length b > 129 \<or> int (length b) - 2 \<noteq> uint (b ! 1))"
  by (auto simp: Decode_def Let_def)

text \<open>
  C6 at a two-byte input, at 130 zero bytes, and at \<open>[0x11, 0x05, 0x01, 0x02]\<close>, whose length
  byte says 5 where 2 digest bytes follow.
\<close>

theorem Decode_failures_witness:
  "Decode the_registry [0x11, 0x00] = Inl ErrTooShort \<and>
   Decode the_registry (replicate 130 0) = Inl ErrTooLong \<and>
   Decode the_registry [0x11, 0x05, 0x01, 0x02]
     = Inl (ErrInconsistentLen
         \<lparr> Code = 0x11, Name = ''sha1'', Length = 5, Digest = [0x01, 0x02] \<rparr>)"
  using Decode_failures [of "[0x11, 0x00]" the_registry]
    Decode_failures [of "replicate 130 0" the_registry]
    Decode_failures [of "[0x11, 0x05, 0x01, 0x02]" the_registry]
  by (simp add: index_string_def Codes_the_registry_sha1)

text \<open>
  Claim C10. Whenever \<open>Decode\<close> succeeds, the result has \<open>0 \<le> Code \<le> 255\<close>,
  \<open>0 \<le> Length \<le> 127\<close> and \<open>len(Digest) = Length\<close>.
\<close>

theorem Decode_invariant:
  "Decode r b = Inr dm \<Longrightarrow>
     0 \<le> Code dm \<and> Code dm \<le> 255 \<and> 0 \<le> Length dm \<and> Length dm \<le> 127 \<and>
     int (length (Digest dm)) = Length dm"
  using uint_byte_bounds [of "b ! 0"]
  by (auto simp: Decode_Inr_iff)

text \<open>C10 at the sha1 multihash \<open>[0x11, 0x04, 0xAA, 0xBB, 0xCC, 0xDD]\<close>.\<close>

theorem Decode_invariant_witness:
  "Decode the_registry [0x11, 0x04, 0xAA, 0xBB, 0xCC, 0xDD]
     = Inr \<lparr> Code = 0x11, Name = ''sha1'', Length = 4, Digest = [0xAA, 0xBB, 0xCC, 0xDD] \<rparr> \<and>
   0 \<le> Code \<lparr> Code = 0x11, Name = ''sha1'', Length = 4, Digest = [0xAA, 0xBB, 0xCC, 0xDD :: byte] \<rparr> \<and>
   Length \<lparr> Code = 0x11, Name = ''sha1'', Length = 4, Digest = [0xAA, 0xBB, 0xCC, 0xDD :: byte] \<rparr>
     \<le> 127"
proof -
  have d: "Decode the_registry [0x11, 0x04, 0xAA, 0xBB, 0xCC, 0xDD]
     = Inr \<lparr> Code = 0x11, Name = ''sha1'', Length = 4, Digest = [0xAA, 0xBB, 0xCC, 0xDD] \<rparr>"
    by (simp add: Decode_ok index_string_def Codes_the_registry_sha1)
  from Decode_invariant [OF d] d show ?thesis
    by simp
qed

section \<open>Encode, then Decode\<close>

text \<open>
  The claim C1 as the specification words it, for every digest of at most 127 bytes,
  fails at the empty digest: \<open>Encode\<close> accepts it and returns the two bytes
  \<open>[0x11, 0x00]\<close>, which \<open>Decode\<close> rejects as too short.
\<close>

theorem Decode_Encode_empty_digest:
  "length ([] :: byte list) \<le> 127 \<and> ValidCode the_registry 0x11 \<and>
   Encode the_registry [] 0x11 = Inr [0x11, 0x00] \<and>
   Decode the_registry [0x11, 0x00] = Inl ErrTooShort"
  by (simp add: Encode_ok ValidCode_sha1 Decode_def)

text \<open>
  Claim C1, amended. For every valid code and every digest \<open>d\<close> of at most 127 bytes
  \<open>Encode\<close> succeeds; when \<open>d\<close> has at least one byte, \<open>Decode\<close> of the output succeeds with
  \<open>Digest = d\<close> and \<open>Length = len(d)\<close>, and when \<open>d\<close> is empty \<open>Decode\<close> of the output fails
  with \<open>ErrTooShort\<close>.
\<close>

theorem Decode_Encode_roundtrip:
  "ValidCode r c \<Longrightarrow> length d \<le> 127 \<Longrightarrow>
   \<exists>w. Encode r d c = Inr w \<and>
     (if d = [] then Decode r w = Inl ErrTooShort
      else \<exists>dm. Decode r w = Inr dm \<and> Digest dm = d \<and> Length dm = int (length d))"
proof (cases "d = []")
  case True
  assume "ValidCode r c"
  with True show ?thesis
    by (simp add: Encode_ok Decode_def)
next
  case False
  assume v: "ValidCode r c" and l: "length d \<le> 127"
  let ?w = "word_of_int c # word_of_int (int (length d)) # d"
  from False have "3 \<le> length ?w"
    by (cases d) simp_all
  moreover from l have "length ?w \<le> 129"
    by simp
  moreover from l have "uint (?w ! 1) = int (length ?w) - 2"
    by (simp add: uint_byte_of_nat)
  ultimately have "Decode r ?w = Inr \<lparr> Code = uint (?w ! 0),
      Name = index_string (Codes r) (uint (?w ! 0)), Length = uint (?w ! 1), Digest = drop 2 ?w \<rparr>"
    by (rule Decode_ok)
  with False v l show ?thesis
    by (simp add: Encode_ok uint_byte_of_nat)
qed

text \<open>The amended C1 at the digest \<open>[0xAA, 0xBB, 0xCC, 0xDD]\<close> and the code of sha1.\<close>

theorem Decode_Encode_roundtrip_witness:
  "ValidCode the_registry 0x11 \<and> length [0xAA, 0xBB, 0xCC, 0xDD :: byte] \<le> 127 \<and>
   Encode the_registry [0xAA, 0xBB, 0xCC, 0xDD] 0x11 = Inr [0x11, 0x04, 0xAA, 0xBB, 0xCC, 0xDD] \<and>
   (\<exists>dm. Decode the_registry [0x11, 0x04, 0xAA, 0xBB, 0xCC, 0xDD] = Inr dm \<and>
      Digest dm = [0xAA, 0xBB, 0xCC, 0xDD] \<and> Length dm = 4)"
proof -
  have l: "length [0xAA, 0xBB, 0xCC, 0xDD :: byte] \<le> 127"
    by simp
  have e: "Encode the_registry [0xAA, 0xBB, 0xCC, 0xDD] 0x11
      = Inr [0x11, 0x04, 0xAA, 0xBB, 0xCC, 0xDD]"
    by (simp add: Encode_ok ValidCode_sha1)
  from Decode_Encode_roundtrip [OF ValidCode_sha1 l] e ValidCode_sha1 show ?thesis
    by simp
qed

section \<open>Cast\<close>

text \<open>
  The claim C2 as the specification words it fails on both of its inputs: each has two
  bytes, and \<open>Cast\<close> passes on the \<open>ErrTooShort\<close> of \<open>Decode\<close> before any code is
  looked at. So \<open>[0x99, 0x00]\<close> is not rejected for its code, and \<open>[0x05, 0x00]\<close> is not
  accepted.
\<close>

theorem Cast_two_bytes:
  "Cast the_registry [0x99, 0x00] = Inl ErrTooShort \<and>
   Cast the_registry [0x05, 0x00] = Inl ErrTooShort"
  by (simp add: Cast_def Decode_def)

text \<open>
  Claim C2, amended. \<open>Cast\<close> of the two-byte inputs \<open>[0x99, 0x00]\<close> and \<open>[0x05, 0x00]\<close>
  fails with \<open>ErrTooShort\<close>. With a digest of one byte \<open>x\<close>, \<open>Cast([0x99, 0x01, x])\<close>
  fails with \<open>ErrUnknownCode\<close>, while \<open>Cast([0x05, 0x01, x])\<close> succeeds (0x05 is in the
  application range) and returns its input, which decodes to code 5, an empty name and
  the digest \<open>[x]\<close>.
\<close>

theorem Cast_code_check:
  "Cast the_registry [0x99, 0x00] = Inl ErrTooShort \<and>
   Cast the_registry [0x05, 0x00] = Inl ErrTooShort \<and>
   Cast the_registry [0x99, 0x01, x] = Inl ErrUnknownCode \<and>
   Cast the_registry [0x05, 0x01, x] = Inr [0x05, 0x01, x] \<and>
   Decode the_registry [0x05, 0x01, x]
     = Inr \<lparr> Code = 5, Name = [], Length = 1, Digest = [x] \<rparr>"
  by (simp add: Cast_def Decode_def ValidCode_def AppCode_def index_string_def
      Codes_the_registry_0x99 Codes_the_registry_small package_vars_def code_consts)

section \<open>EncodeName\<close>

lemma Names_the_registry_nope: "Names the_registry ''nope'' = None"
  by (simp add: Names_the_registry_other package_vars_def)

text \<open>
  The claim C3 as the specification words it fails: \<open>''nope''\<close> is no key of \<open>Names\<close>, the
  lookup gives 0, and 0 is in the application range, so \<open>EncodeName\<close> succeeds.
\<close>

theorem EncodeName_unknown_name_succeeds:
  "Names the_registry ''nope'' = None \<and>
   EncodeName the_registry [0xAA] ''nope'' = Inr [0x00, 0x01, 0xAA]"
  by (simp add: Names_the_registry_nope EncodeName_def index_int_def Encode_def
      ValidCode_def AppCode_def)

text \<open>
  Claim C3, amended. For every digest \<open>d\<close> and every name that is no key of \<open>Names\<close>,
  \<open>EncodeName(d, name)\<close> is \<open>Encode(d, 0)\<close>: it never fails with \<open>ErrUnknownCode\<close>; it
  succeeds with the bytes 0 and \<open>len(d)\<close> followed by \<open>d\<close> when \<open>d\<close> has at most 127
  bytes, and fails with \<open>ErrLenNotSupported\<close> when \<open>d\<close> is longer.
\<close>

theorem EncodeName_unknown_name:
  "Names r name = None \<Longrightarrow>
   EncodeName r d name = Encode r d 0 \<and>
   EncodeName r d name \<noteq> Inl ErrUnknownCode \<and>
   (length d \<le> 127 \<longrightarrow> EncodeName r d name = Inr (0 # word_of_int (int (length d)) # d)) \<and>
   (length d > 127 \<longrightarrow> EncodeName r d name = Inl ErrLenNotSupported)"
  by (simp add: EncodeName_def index_int_def Encode_def ValidCode_def AppCode_def)

text \<open>The amended C3 at the name \<open>''nope''\<close> and the one-byte digest \<open>[0xAA]\<close>.\<close>

theorem EncodeName_unknown_name_witness:
  "Names the_registry ''nope'' = None \<and>
   EncodeName the_registry [0xAA] ''nope'' = Encode the_registry [0xAA] 0 \<and>
   EncodeName the_registry [0xAA] ''nope'' \<noteq> Inl ErrUnknownCode \<and>
   EncodeName the_registry [0xAA] ''nope'' = Inr [0x00, 0x01, 0xAA]"
  using EncodeName_unknown_name [OF Names_the_registry_nope, of "[0xAA]"]
    Names_the_registry_nope
  by auto

section \<open>Hexadecimal text\<close>

lemma Cast_Inr: "Cast r buf = Inr m \<Longrightarrow> m = buf"
  by (auto simp: Cast_def split: sum.splits if_splits)

lemma Cast_sha1_example:
  "Cast the_registry [0x11, 0x04, 0xAA, 0xBB, 0xCC, 0xDD]
     = Inr [0x11, 0x04, 0xAA, 0xBB, 0xCC, 0xDD]"
  by (simp add: Cast_def Decode_ok ValidCode_sha1)

lemma HexString_sha1_example:
  "HexString [0x11, 0x04, 0xAA, 0xBB, 0xCC, 0xDD] = ''1104aabbccdd''"
  by (simp add: HexString_def hextable_def)

text \<open>
  Claim C8. For every byte sequence \<open>v\<close> that \<open>Cast\<close> accepts, the value \<open>m\<close> it returns is
  \<open>v\<close> itself, \<open>FromHexString(m.HexString())\<close> succeeds and returns \<open>m\<close>, and \<open>HexString\<close>
  consists of exactly \<open>2 * len(m)\<close> characters, each a digit or a lowercase letter
  \<open>a\<close> to \<open>f\<close>.
\<close>

theorem FromHexString_HexString:
  "Cast r v = Inr m \<Longrightarrow>
   m = v \<and>
   FromHexString r (HexString m) = Inr m \<and>
   length (HexString m) = 2 * length m \<and>
   set (HexString m) \<subseteq> set ''0123456789abcdef''"
proof -
  assume c: "Cast r v = Inr m"
  then have "m = v"
    by (rule Cast_Inr)
  with c show ?thesis
    using hex_EncodeToString_lowercase [of v]
    by (simp add: FromHexString_def HexString_def hex_DecodeString_EncodeToString
        length_hex_EncodeToString)
qed

text \<open>
  C8 at the sha1 multihash \<open>[0x11, 0x04, 0xAA, 0xBB, 0xCC, 0xDD]\<close>, whose hexadecimal text
  is \<open>1104aabbccdd\<close>.
\<close>

theorem FromHexString_HexString_witness:
  "Cast the_registry [0x11, 0x04, 0xAA, 0xBB, 0xCC, 0xDD]
     = Inr [0x11, 0x04, 0xAA, 0xBB, 0xCC, 0xDD] \<and>
   HexString [0x11, 0x04, 0xAA, 0xBB, 0xCC, 0xDD] = ''1104aabbccdd'' \<and>
   FromHexString the_registry ''1104aabbccdd'' = Inr [0x11, 0x04, 0xAA, 0xBB, 0xCC, 0xDD] \<and>
   length ''1104aabbccdd'' = 2 * length [0x11, 0x04, 0xAA, 0xBB, 0xCC, 0xDD :: byte]"
  using FromHexString_HexString [OF Cast_sha1_example] Cast_sha1_example
  by (simp add: HexString_sha1_example)

section \<open>The generated code families\<close>

lemma fmt_d_8: "fmt_d 8 = ''8''"
  by code_simp

lemma fmt_d_256: "fmt_d 256 = ''256''"
  by code_simp

lemma fmt_d_512: "fmt_d 512 = ''512''"
  by code_simp

text \<open>
  Claim C9. After \<open>init\<close>, the code at offset \<open>k\<close> of the blake2b range (\<open>k\<close> from 0 to 63)
  maps to the name \<open>blake2b-\<close> followed by the decimal digits of \<open>(k + 1) * 8\<close> and to the
  default length \<open>k + 1\<close>, and likewise in the blake2s range (\<open>k\<close> from 0 to 31). In
  particular 0xb201 maps to \<open>blake2b-8\<close> and length 1, 0xb240 to \<open>blake2b-512\<close> and length
  64, 0xb241 to \<open>blake2s-8\<close> and length 1, and 0xb260 to \<open>blake2s-256\<close> and length 32.
\<close>

theorem init_generated_codes:
  "(\<forall>k. 0 \<le> k \<and> k < 64 \<longrightarrow>
      Codes the_registry (BLAKE2B_MIN + k) = Some (''blake2b-'' @ fmt_d (nat ((k + 1) * 8))) \<and>
      DefaultLengths the_registry (BLAKE2B_MIN + k) = Some (k + 1)) \<and>
   (\<forall>k. 0 \<le> k \<and> k < 32 \<longrightarrow>
      Codes the_registry (BLAKE2S_MIN + k) = Some (''blake2s-'' @ fmt_d (nat ((k + 1) * 8))) \<and>
      DefaultLengths the_registry (BLAKE2S_MIN + k) = Some (k + 1)) \<and>
   Codes the_registry 0xb201 = Some ''blake2b-8'' \<and>
   DefaultLengths the_registry 0xb201 = Some 1 \<and>
   Codes the_registry 0xb240 = Some ''blake2b-512'' \<and>
   DefaultLengths the_registry 0xb240 = Some 64 \<and>
   Codes the_registry 0xb241 = Some ''blake2s-8'' \<and>
   DefaultLengths the_registry 0xb241 = Some 1 \<and>
   Codes the_registry 0xb260 = Some ''blake2s-256'' \<and>
   DefaultLengths the_registry 0xb260 = Some 32"
  by (simp add: Codes_the_registry DefaultLengths_the_registry code_consts
      fmt_d_8 fmt_d_256 fmt_d_512)

text \<open>C9 at offset 63 of the blake2b range and at offset 1 of the blake2s range.\<close>

theorem init_generated_codes_witness:
  "(0::int) \<le> 63 \<and> (63::int) < 64 \<and>
   Codes the_registry (BLAKE2B_MIN + 63) = Some ''blake2b-512'' \<and>
   DefaultLengths the_registry (BLAKE2B_MIN + 63) = Some 64 \<and>
   (0::int) \<le> 1 \<and> (1::int) < 32 \<and>
   Codes the_registry (BLAKE2S_MIN + 1) = Some (''blake2s-'' @ fmt_d 16) \<and>
   DefaultLengths the_registry (BLAKE2S_MIN + 1) = Some 2"
proof -
  from init_generated_codes
  have "0 \<le> (63::int) \<and> (63::int) < 64 \<longrightarrow>
      Codes the_registry (BLAKE2B_MIN + 63) = Some (''blake2b-'' @ fmt_d (nat ((63 + 1) * 8))) \<and>
      DefaultLengths the_registry (BLAKE2B_MIN + 63) = Some (63 + 1)"
    by blast
  moreover from init_generated_codes
  have "0 \<le> (1::int) \<and> (1::int) < 32 \<longrightarrow>
      Codes the_registry (BLAKE2S_MIN + 1) = Some (''blake2s-'' @ fmt_d (nat ((1 + 1) * 8))) \<and>
      DefaultLengths the_registry (BLAKE2S_MIN + 1) = Some (1 + 1)"
    by blast
  ultimately show ?thesis
    by (simp add: fmt_d_512)
qed

end
